theory Spec2Isabelle
  imports Complex_Main
begin

section \<open>Panel tree of the graphic novel builder\<close>

text \<open>
  The development follows the builder component (the file with \<open>applyResize\<close>,
  \<open>findNode\<close>, \<open>updateNode\<close> and the layout presets).

  Conventions of the embedding:
  \<^item> a TypeScript \<open>number\<close> is a \<open>real\<close>: finite doubles with exact arithmetic.
    Rounding is not modelled, and \<open>NaN\<close> and the infinities are not values of the model.
    Where the JavaScript computation would leave the finite numbers (a read past the
    end of an array gives \<open>undefined\<close>, and arithmetic on it gives \<open>NaN\<close>; a division
    by zero gives an infinity) the model returns \<open>Inl NotFinite\<close> instead of a node.
    Statements about the size of rounding errors are outside this model;
  \<^item> an optional field \<open>f?: T\<close> is a \<open>T option\<close>, \<open>null\<close> is \<open>None\<close>;
  \<^item> an array index is a \<open>nat\<close> (the callers pass the position given by \<open>Array.map\<close>);
  \<^item> a callback that may throw returns a sum, \<open>Inl\<close> carrying what was thrown.
\<close>

subsection \<open>Data model\<close>

datatype Direction = Horizontal | Vertical

datatype ContentType = TextContent | ImageContent

datatype Align = AlignLeft | AlignCenter | AlignRight | AlignJustify

datatype ObjectFit = Cover | Contain | Fill

record TextProps =
  tp_text :: "string option"
  tp_align :: "Align option"
  tp_fontSize :: "real option"
  tp_lineHeight :: "real option"
  tp_padding :: "real option"
  tp_bg :: "string option"
  tp_italic :: "bool option"
  tp_bold :: "bool option"
  tp_radius :: "real option"
  tp_fontFamily :: "string option"
  tp_letterSpacing :: "real option"
  tp_wordSpacing :: "real option"

record ImageProps =
  ip_url :: "string option"
  ip_objectFit :: "ObjectFit option"
  ip_scale :: "real option"
  ip_offsetX :: "real option"
  ip_offsetY :: "real option"
  ip_radius :: "real option"
  ip_padding :: "real option"
  ip_bg :: "string option"
  ip_opacity :: "real option"
  ip_filter :: "string option"

text \<open>
  \<open>interface LeafNode\<close>. The field \<open>kind: "leaf"\<close> is the constructor \<open>Leaf\<close> of
  \<open>Node\<close> below; \<open>id\<close> is called \<open>leaf_id\<close> because \<open>id\<close> is the identity function of HOL.
\<close>

record LeafNode =
  leaf_id :: string
  contentType :: ContentType
  textProps :: TextProps
  imageProps :: ImageProps

text \<open>
  \<open>type Node = SplitNode | LeafNode\<close>. A split carries \<open>id\<close>, \<open>direction\<close>, \<open>sizes\<close>
  and \<open>children\<close>; the two arrays are independent, as in the interface.
\<close>

datatype Node =
  Leaf LeafNode
| Split string Direction "real list" "Node list"

fun node_id :: "Node \<Rightarrow> string" where
  "node_id (Leaf l) = leaf_id l"
| "node_id (Split i d sz ch) = i"

fun is_split :: "Node \<Rightarrow> bool" where
  "is_split (Leaf l) = False"
| "is_split (Split i d sz ch) = True"

text \<open>
  What a call can end with instead of a node. \<open>TypeError\<close> is the JavaScript exception.
  \<open>NotFinite\<close> is not an exception: JavaScript goes on with \<open>NaN\<close> or an infinity in
  the sizes, which the reals of this model do not contain.
\<close>

datatype anomaly = NotFinite | TypeError

subsection \<open>Utilities\<close>

text \<open>
  \<open>appendGeneratedLine(existingText: string | undefined, newLine: string)\<close>:
  \<open>prev = existingText || ""\<close>, then \<open>prev ? `${prev}\n\n${newLine}` : newLine\<close>.
  The empty string is the only falsy string.
\<close>

definition appendGeneratedLine :: "string option \<Rightarrow> string \<Rightarrow> string" where
  "appendGeneratedLine existingText newLine =
     (let prev = (case existingText of None \<Rightarrow> [] | Some s \<Rightarrow> s)
      in if prev \<noteq> [] then prev @ [CHR 0x0A, CHR 0x0A] @ newLine else newLine)"

subsection \<open>Tree utilities\<close>

text \<open>
  \<open>Array.prototype.find(Boolean)\<close> on an array of \<open>Node | null\<close>: the first element
  that is not \<open>null\<close> (every object is truthy), \<open>undefined\<close> when there is none; the
  source turns that into \<open>null\<close> with \<open>|| null\<close>.
\<close>

fun find_Boolean :: "'a option list \<Rightarrow> 'a option" where
  "find_Boolean [] = None"
| "find_Boolean (Some x # rest) = Some x"
| "find_Boolean (None # rest) = find_Boolean rest"

fun findNode :: "Node \<Rightarrow> string \<Rightarrow> Node option" where
  "findNode (Leaf l) i = (if leaf_id l = i then Some (Leaf l) else None)"
| "findNode (Split s d sz ch) i =
     (if s = i then Some (Split s d sz ch)
      else find_Boolean (map (\<lambda>c. findNode c i) ch))"

text \<open>
  \<open>Array.prototype.map\<close> with a callback that may throw: the elements are visited from
  left to right and the first exception ends the call.
\<close>

fun map_throwing :: "('a \<Rightarrow> 'e + 'b) \<Rightarrow> 'a list \<Rightarrow> 'e + 'b list" where
  "map_throwing f [] = Inr []"
| "map_throwing f (x # xs) =
     (case f x of
        Inl e \<Rightarrow> Inl e
      | Inr y \<Rightarrow> (case map_throwing f xs of Inl e \<Rightarrow> Inl e | Inr ys \<Rightarrow> Inr (y # ys)))"

lemma map_throwing_cong [fundef_cong]:
  "xs = ys \<Longrightarrow> (\<And>x. x \<in> set ys \<Longrightarrow> f x = g x) \<Longrightarrow> map_throwing f xs = map_throwing g ys"
  by (induction ys arbitrary: xs) (auto split: sum.splits)

text \<open>
  \<open>updateNode(node, id, updater)\<close>. The updater is a caller-supplied function and may
  throw, so it returns a sum and so does \<open>updateNode\<close>.
\<close>

fun updateNode :: "Node \<Rightarrow> string \<Rightarrow> (Node \<Rightarrow> 'e + Node) \<Rightarrow> 'e + Node" where
  "updateNode (Leaf l) i updater = (if leaf_id l = i then updater (Leaf l) else Inr (Leaf l))"
| "updateNode (Split s d sz ch) i updater =
     (if s = i then updater (Split s d sz ch)
      else (case map_throwing (\<lambda>c. updateNode c i updater) ch of
              Inl e \<Rightarrow> Inl e
            | Inr ch' \<Rightarrow> Inr (Split s d sz ch')))"

subsection \<open>Identifiers and layout presets\<close>

text \<open>
  \<open>uid = () => Math.random().toString(36).slice(2, 9)\<close>. The strings come from the
  random number generator of the environment, so the model takes them as given: the
  state is the sequence of strings that the successive calls of \<open>uid()\<close> return,
  together with the number of calls made so far. Whatever calls \<open>uid\<close> threads
  this state; JavaScript evaluates the properties of an object literal and the elements
  of an array literal from left to right, which fixes the order of the calls.
\<close>

type_synonym random_state = "(nat \<Rightarrow> string) \<times> nat"

definition uid :: "random_state \<Rightarrow> string \<times> random_state" where
  "uid g = (fst g (snd g), (fst g, Suc (snd g)))"

definition DEFAULT_LEAF :: "random_state \<Rightarrow> LeafNode \<times> random_state" where
  "DEFAULT_LEAF g =
     (let (i, g) = uid g
      in (\<lparr> leaf_id = i,
            contentType = TextContent,
            textProps = \<lparr> tp_text = Some ''Click to edit this segment...'',
                          tp_align = Some AlignLeft,
                          tp_fontSize = Some 16,
                          tp_lineHeight = Some 1.5,
                          tp_padding = Some 16,
                          tp_bg = Some ''transparent'',
                          tp_italic = Some False,
                          tp_bold = Some False,
                          tp_radius = Some 8,
                          tp_fontFamily = Some ''Inter'',
                          tp_letterSpacing = Some 0,
                          tp_wordSpacing = Some 0 \<rparr>,
            imageProps = \<lparr> ip_url = Some [],
                           ip_objectFit = Some Cover,
                           ip_scale = Some 1,
                           ip_offsetX = Some 0,
                           ip_offsetY = Some 0,
                           ip_radius = Some 8,
                           ip_padding = Some 0,
                           ip_bg = Some ''transparent'',
                           ip_opacity = Some 1,
                           ip_filter = Some ''none'' \<rparr> \<rparr>, g))"

definition layoutTwoColumns :: "random_state \<Rightarrow> Node \<times> random_state" where
  "layoutTwoColumns g =
     (let (i, g) = uid g; (a, g) = DEFAULT_LEAF g; (b, g) = DEFAULT_LEAF g
      in (Split i Horizontal [0.5, 0.5] [Leaf a, Leaf b], g))"

definition layoutThreeColumns :: "random_state \<Rightarrow> Node \<times> random_state" where
  "layoutThreeColumns g =
     (let (i, g) = uid g; (a, g) = DEFAULT_LEAF g; (b, g) = DEFAULT_LEAF g;
          (c, g) = DEFAULT_LEAF g
      in (Split i Horizontal [0.33, 0.33, 0.34] [Leaf a, Leaf b, Leaf c], g))"

definition layoutTwoByTwo :: "random_state \<Rightarrow> Node \<times> random_state" where
  "layoutTwoByTwo g =
     (let (i, g) = uid g;
          (i1, g) = uid g; (a1, g) = DEFAULT_LEAF g; (b1, g) = DEFAULT_LEAF g;
          (i2, g) = uid g; (a2, g) = DEFAULT_LEAF g; (b2, g) = DEFAULT_LEAF g
      in (Split i Vertical [0.5, 0.5]
            [Split i1 Horizontal [0.5, 0.5] [Leaf a1, Leaf b1],
             Split i2 Horizontal [0.5, 0.5] [Leaf a2, Leaf b2]], g))"

definition layoutMagazine :: "random_state \<Rightarrow> Node \<times> random_state" where
  "layoutMagazine g =
     (let (i, g) = uid g; (a, g) = DEFAULT_LEAF g;
          (i1, g) = uid g; (a1, g) = DEFAULT_LEAF g; (b1, g) = DEFAULT_LEAF g
      in (Split i Horizontal [0.62, 0.38]
            [Leaf a, Split i1 Vertical [0.6, 0.4] [Leaf a1, Leaf b1]], g))"

definition layoutHeaderColumns :: "random_state \<Rightarrow> Node \<times> random_state" where
  "layoutHeaderColumns g =
     (let (i, g) = uid g; (a, g) = DEFAULT_LEAF g;
          (i1, g) = uid g; (a1, g) = DEFAULT_LEAF g; (b1, g) = DEFAULT_LEAF g
      in (Split i Vertical [0.25, 0.75]
            [Leaf a, Split i1 Horizontal [0.5, 0.5] [Leaf a1, Leaf b1]], g))"

definition layoutFullBleed :: "random_state \<Rightarrow> Node \<times> random_state" where
  "layoutFullBleed g =
     (let (i, g) = uid g; (a, g) = DEFAULT_LEAF g
      in (Split i Horizontal [1] [Leaf a], g))"

definition layoutComic6Panel :: "random_state \<Rightarrow> Node \<times> random_state" where
  "layoutComic6Panel g =
     (let (i, g) = uid g;
          (i1, g) = uid g; (a1, g) = DEFAULT_LEAF g; (b1, g) = DEFAULT_LEAF g;
          (i2, g) = uid g; (a2, g) = DEFAULT_LEAF g; (b2, g) = DEFAULT_LEAF g;
          (i3, g) = uid g; (a3, g) = DEFAULT_LEAF g; (b3, g) = DEFAULT_LEAF g
      in (Split i Vertical [0.33, 0.33, 0.34]
            [Split i1 Horizontal [0.5, 0.5] [Leaf a1, Leaf b1],
             Split i2 Horizontal [0.5, 0.5] [Leaf a2, Leaf b2],
             Split i3 Horizontal [0.5, 0.5] [Leaf a3, Leaf b3]], g))"

definition layoutComicSplash :: "random_state \<Rightarrow> Node \<times> random_state" where
  "layoutComicSplash g =
     (let (i, g) = uid g; (a, g) = DEFAULT_LEAF g;
          (i1, g) = uid g; (a1, g) = DEFAULT_LEAF g; (b1, g) = DEFAULT_LEAF g;
          (c1, g) = DEFAULT_LEAF g
      in (Split i Vertical [0.8, 0.2]
            [Leaf a, Split i1 Horizontal [0.33, 0.33, 0.34] [Leaf a1, Leaf b1, Leaf c1]], g))"

definition layoutPyramid :: "random_state \<Rightarrow> Node \<times> random_state" where
  "layoutPyramid g =
     (let (i, g) = uid g; (a, g) = DEFAULT_LEAF g;
          (i1, g) = uid g; (a1, g) = DEFAULT_LEAF g; (b1, g) = DEFAULT_LEAF g;
          (c1, g) = DEFAULT_LEAF g
      in (Split i Vertical [0.3, 0.7]
            [Leaf a, Split i1 Horizontal [0.25, 0.5, 0.25] [Leaf a1, Leaf b1, Leaf c1]], g))"

definition PRESETS :: "(string \<times> (random_state \<Rightarrow> Node \<times> random_state)) list" where
  "PRESETS =
     [(''Two Col'', layoutTwoColumns),
      (''Three Col'', layoutThreeColumns),
      ([CHR ''2'', CHR 0xD7, CHR ''2''], layoutTwoByTwo),
      (''Magazine'', layoutMagazine),
      (''Header+Cols'', layoutHeaderColumns),
      (''Full'', layoutFullBleed),
      (''6-Panel'', layoutComic6Panel),
      (''Splash'', layoutComicSplash),
      (''Pyramid'', layoutPyramid)]"

subsection \<open>Resizing\<close>

text \<open>
  \<open>applyResize(n, index, delta)\<close>. The source copies \<open>n.sizes\<close>, reads the slots
  \<open>index\<close> and \<open>index+1\<close> and writes both back. When one of the two slots does not exist
  the JavaScript total is \<open>NaN\<close> and both written values are \<open>NaN\<close>: \<open>Inl NotFinite\<close>.
\<close>

fun applyResize :: "Node \<Rightarrow> nat \<Rightarrow> real \<Rightarrow> anomaly + Node" where
  "applyResize (Leaf l) index delta = Inr (Leaf l)"
| "applyResize (Split i d sz ch) index delta =
     (if index + 1 < length sz then
        (let minv = 0.08;
             total = sz ! index + sz ! (index + 1);
             a = sz ! index + delta;
             a = max minv (min a (total - minv))
         in Inr (Split i d ((sz[index := a])[index + 1 := total - a]) ch))
      else Inl NotFinite)"

subsection \<open>Inspectors\<close>

text \<open>
  The leaf inspector changes the content type with
  \<open>onChange(n => ({...n, contentType: value}))\<close>, where \<open>onChange\<close> takes an
  updater of type \<open>(node: LeafNode) => LeafNode\<close>.
\<close>

definition contentTypeUpdater :: "ContentType \<Rightarrow> LeafNode \<Rightarrow> LeafNode" where
  "contentTypeUpdater v n = n\<lparr> contentType := v \<rparr>"


subsection \<open>Vocabulary of the specification\<close>

text \<open>
  The specification writes \<open>clamp(x, lo, hi)\<close> without defining it. It is read here as
  the usual \<open>max lo (min x hi)\<close>; when \<open>lo \<le> hi\<close> this is the point of the interval
  \<open>[lo, hi]\<close> nearest to \<open>x\<close> (lemma \<open>clamp_interval\<close> below).
\<close>

definition clamp :: "real \<Rightarrow> real \<Rightarrow> real \<Rightarrow> real" where
  "clamp x lo hi = max lo (min x hi)"

text \<open>
  The nodes of a tree in depth-first order: a node before its descendants, the children
  from left to right.
\<close>

fun preorder :: "Node \<Rightarrow> Node list" where
  "preorder (Leaf l) = [Leaf l]"
| "preorder (Split i d sz ch) = Split i d sz ch # concat (map preorder ch)"

definition ids :: "Node \<Rightarrow> string list" where
  "ids t = map node_id (preorder t)"

text \<open>
  A position in a tree is the list of child indices leading to it from the root.
  \<open>subtree_at\<close> reads the node at a position, \<open>replace_at\<close> puts another node there
  and leaves the rest of the tree as it is.
\<close>

primrec subtree_at :: "nat list \<Rightarrow> Node \<Rightarrow> Node option" where
  "subtree_at [] t = Some t"
| "subtree_at (k # p) t =
     (case t of
        Leaf l \<Rightarrow> None
      | Split i d sz ch \<Rightarrow> if k < length ch then subtree_at p (ch ! k) else None)"

primrec replace_at :: "nat list \<Rightarrow> Node \<Rightarrow> Node \<Rightarrow> Node" where
  "replace_at [] new t = new"
| "replace_at (k # p) new t =
     (case t of
        Leaf l \<Rightarrow> Leaf l
      | Split i d sz ch \<Rightarrow>
          if k < length ch then Split i d sz (ch[k := replace_at p new (ch ! k)])
          else Split i d sz ch)"

text \<open>
  The shape the data model asks of every split: at least one child, as many sizes as
  children, sizes summing to 1.
\<close>

fun splits_ok :: "Node \<Rightarrow> bool" where
  "splits_ok (Leaf l) = True"
| "splits_ok (Split i d sz ch) =
     (ch \<noteq> [] \<and> length ch = length sz \<and> sum_list sz = 1 \<and> list_all splits_ok ch)"

text \<open>
  \<open>draws f n k\<close> are the \<open>k\<close> results of \<open>uid()\<close> from call number \<open>n\<close> on.
  \<open>fresh_call g r\<close> says of a result \<open>r\<close> (a tree and the state after it) obtained
  from the state \<open>g\<close>: the call made exactly one \<open>uid()\<close> call per node of the tree,
  and the identifiers of the tree, in depth-first order, are the results of these calls
  in the order they were made.
\<close>

fun draws :: "(nat \<Rightarrow> string) \<Rightarrow> nat \<Rightarrow> nat \<Rightarrow> string list" where
  "draws f n 0 = []"
| "draws f n (Suc k) = f n # draws f (Suc n) k"

definition fresh_call :: "random_state \<Rightarrow> Node \<times> random_state \<Rightarrow> bool" where
  "fresh_call g r =
     (fst (snd r) = fst g \<and>
      snd (snd r) = snd g + length (ids (fst r)) \<and>
      ids (fst r) = draws (fst g) (snd g) (length (ids (fst r))))"

subsection \<open>Sample inputs\<close>

text \<open>
  Ten different identifiers of the form \<open>uid()\<close> produces, for the examples;
  \<open>colliding_draws\<close> is the same sequence except that the third call returns what
  the first call returned.
\<close>

definition sample_draws :: "nat \<Rightarrow> string" where
  "sample_draws n =
     (if n < 10 then
        [''k3v9x2a'', ''p0q8w7e'', ''z1y5u4t'', ''b6n2m8c'', ''h4j7l0d'',
         ''r9s3f5g'', ''w2e6i1o'', ''t8u4a7q'', ''c5x0z3v'', ''m1n9b2k''] ! n
      else ''0000000'')"

definition colliding_draws :: "nat \<Rightarrow> string" where
  "colliding_draws n = (if n = 2 then ''k3v9x2a'' else sample_draws n)"

definition sample_leaf :: "nat \<Rightarrow> Node" where
  "sample_leaf k = Leaf (fst (DEFAULT_LEAF (sample_draws, k)))"

section \<open>Properties\<close>

subsection \<open>Lists\<close>

lemma find_append_first:
  "List.find P (xs @ ys) = (case List.find P xs of Some x \<Rightarrow> Some x | None \<Rightarrow> List.find P ys)"
  by (induction xs) simp_all

lemma find_Boolean_concat:
  "(\<And>c. c \<in> set ch \<Longrightarrow> f c = List.find P (g c)) \<Longrightarrow>
   find_Boolean (map f ch) = List.find P (concat (map g ch))"
proof (induction ch)
  case Nil
  then show ?case by simp
next
  case (Cons c cs)
  then show ?case
    by (cases "List.find P (g c)") (simp_all add: find_append_first)
qed

lemma clamp_interval:
  "lo \<le> hi \<Longrightarrow> clamp x lo hi = (if x < lo then lo else if hi < x then hi else x)"
  by (simp add: clamp_def max_def min_def)

subsection \<open>appendGeneratedLine\<close>

text \<open>
  C10. \<open>appendGeneratedLine(existingText, newLine)\<close> is \<open>newLine\<close> when \<open>existingText\<close>
  is \<open>undefined\<close> or the empty string; otherwise it is \<open>existingText\<close>, then the two
  characters \<open>"\n\n"\<close> (one blank line), then \<open>newLine\<close>.
\<close>

theorem appendGeneratedLine_cases:
  "appendGeneratedLine None newLine = newLine \<and>
   appendGeneratedLine (Some []) newLine = newLine \<and>
   (existingText \<noteq> [] \<longrightarrow>
      appendGeneratedLine (Some existingText) newLine
        = existingText @ [CHR 0x0A, CHR 0x0A] @ newLine)"
  by (simp add: appendGeneratedLine_def)

theorem appendGeneratedLine_cases_witness:
  "''Once'' \<noteq> [] \<and>
   appendGeneratedLine (Some ''Once'') ''Then'' = ''Once'' @ [CHR 0x0A, CHR 0x0A] @ ''Then''"
  using appendGeneratedLine_cases [of "''Then''" "''Once''"] by simp

subsection \<open>findNode\<close>

text \<open>
  C6. \<open>findNode(root, id)\<close> is a depth-first search, the root first and the children
  from left to right: it returns the first node of that order whose identifier is
  \<open>id\<close>, and \<open>null\<close> when no node of the tree has it.
\<close>

theorem findNode_first_in_preorder:
  "findNode tree i = List.find (\<lambda>n. node_id n = i) (preorder tree)"
proof (induction tree)
  case (Leaf l)
  show ?case by simp
next
  case (Split s d sz ch)
  then show ?case by (simp add: find_Boolean_concat)
qed

subsection \<open>applyResize\<close>

text \<open>
  C9. A node that is not a split (a leaf) is returned by \<open>applyResize\<close> as it is, for
  every index and every delta.
\<close>

theorem applyResize_leaf_unchanged:
  "applyResize (Leaf l) index delta = Inr (Leaf l)"
  by simp

text \<open>
  C1. For a split whose two arrays have the same length and a boundary
  \<open>0 \<le> index \<le> children.length - 2\<close>, \<open>applyResize\<close> returns the same split (same id,
  direction and children) whose sizes have the same length and differ in two slots
  only: slot \<open>index\<close> is \<open>clamp(sizes[index] + delta, 0.08, total - 0.08)\<close> and slot
  \<open>index + 1\<close> is \<open>total\<close> minus the new slot \<open>index\<close>, where \<open>total\<close> is the sum of
  the two slots before the call. The sizes need not sum to 1 for this.
\<close>

theorem applyResize_boundary:
  assumes "length ch = length sz" and "index + 2 \<le> length ch"
  shows "\<exists>sz'. applyResize (Split i d sz ch) index delta = Inr (Split i d sz' ch)
           \<and> length sz' = length sz
           \<and> sz' ! index = clamp (sz ! index + delta) 0.08 (sz ! index + sz ! (index + 1) - 0.08)
           \<and> sz' ! (index + 1) = sz ! index + sz ! (index + 1) - sz' ! index
           \<and> (\<forall>j. j \<noteq> index \<and> j \<noteq> index + 1 \<longrightarrow> sz' ! j = sz ! j)"
  using assms by (simp add: clamp_def Let_def)

theorem applyResize_boundary_witness:
  "\<exists>sz'. applyResize (Split ''k3v9x2a'' Horizontal [0.25, 0.5, 0.25] [sample_leaf 1, sample_leaf 2, sample_leaf 3]) 1 0.3
            = Inr (Split ''k3v9x2a'' Horizontal sz' [sample_leaf 1, sample_leaf 2, sample_leaf 3])
         \<and> length sz' = 3 \<and> sz' ! 1 = 0.67 \<and> sz' ! (1 + 1) = 0.08 \<and> sz' ! 0 = 0.25"
proof -
  have "length [sample_leaf 1, sample_leaf 2, sample_leaf 3] = length [0.25, 0.5, 0.25 :: real]" by simp
  moreover have "(1::nat) + 2 \<le> length [sample_leaf 1, sample_leaf 2, sample_leaf 3]" by simp
  ultimately obtain sz' where
    r: "applyResize (Split ''k3v9x2a'' Horizontal [0.25, 0.5, 0.25] [sample_leaf 1, sample_leaf 2, sample_leaf 3]) 1 0.3
          = Inr (Split ''k3v9x2a'' Horizontal sz' [sample_leaf 1, sample_leaf 2, sample_leaf 3])"
    and l: "length sz' = length [0.25, 0.5, 0.25 :: real]"
    and s1: "sz' ! 1 = clamp ([0.25, 0.5, 0.25] ! 1 + 0.3) 0.08
                        ([0.25, 0.5, 0.25] ! 1 + [0.25, 0.5, 0.25] ! (1 + 1) - 0.08)"
    and s2: "sz' ! (1 + 1) = [0.25, 0.5, 0.25] ! 1 + [0.25, 0.5, 0.25] ! (1 + 1) - sz' ! 1"
    and s0: "\<forall>j. j \<noteq> 1 \<and> j \<noteq> 1 + 1 \<longrightarrow> sz' ! j = [0.25, 0.5, 0.25] ! j"
    using applyResize_boundary [of "[sample_leaf 1, sample_leaf 2, sample_leaf 3]" "[0.25, 0.5, 0.25]" 1 "''k3v9x2a''" Horizontal "0.3"]
    by blast
  from s1 have v1: "sz' ! 1 = 0.67" by (simp add: clamp_def)
  from s2 v1 have v2: "sz' ! (1 + 1) = 0.08" by simp
  from s0 have "sz' ! 0 = [0.25, 0.5, 0.25] ! 0" by simp
  then have v0: "sz' ! 0 = 0.25" by simp
  from r l v1 v2 v0 show ?thesis by simp
qed

text \<open>
  C5. A two-child split with sizes \<open>[0.5, 0.5]\<close>, resized at boundary 0 by \<open>-0.6\<close>,
  gets exactly the sizes \<open>[0.08, 0.92]\<close>: the first slot stops at the floor 0.08.
\<close>

theorem applyResize_clamp_example:
  "applyResize (Split i d [0.5, 0.5] [c1, c2]) 0 (- 0.6) = Inr (Split i d [0.08, 0.92] [c1, c2])"
  by simp

subsection \<open>updateNode\<close>

lemma node_id_in_ids: "node_id t \<in> set (ids t)"
  by (cases t) (simp_all add: ids_def)

lemma ids_Split:
  "ids (Split s d sz ch) = s # concat (map ids ch)"
  by (simp add: ids_def [abs_def] map_concat comp_def)

lemma subtree_at_ids:
  "subtree_at p t = Some n \<Longrightarrow> set (ids n) \<subseteq> set (ids t)"
proof (induction p arbitrary: t)
  case Nil
  then show ?case by simp
next
  case (Cons k p)
  from Cons.prems obtain s d sz ch where t: "t = Split s d sz ch"
    and k: "k < length ch" and sub: "subtree_at p (ch ! k) = Some n"
    by (cases t) (auto split: if_splits)
  from sub have "set (ids n) \<subseteq> set (ids (ch ! k))" by (rule Cons.IH)
  moreover have "ch ! k \<in> set ch" using k by simp
  ultimately show ?case unfolding t ids_Split by auto
qed

lemma map_throwing_id:
  "(\<And>x. x \<in> set xs \<Longrightarrow> f x = Inr x) \<Longrightarrow> map_throwing f xs = Inr xs"
  by (induction xs) simp_all

lemma updateNode_absent:
  "i \<notin> set (ids t) \<Longrightarrow> updateNode t i updater = Inr t"
proof (induction t)
  case (Leaf l)
  then show ?case by (simp add: ids_def)
next
  case (Split s d sz ch)
  have "map_throwing (\<lambda>c. updateNode c i updater) ch = Inr ch"
  proof (rule map_throwing_id)
    fix c assume c: "c \<in> set ch"
    with Split.prems have "i \<notin> set (ids c)" by (auto simp: ids_Split)
    with c show "updateNode c i updater = Inr c" by (rule Split.IH)
  qed
  moreover have "s \<noteq> i" using Split.prems by (auto simp: ids_Split)
  ultimately show ?case by simp
qed

lemma map_throwing_one:
  assumes "k < length xs"
    and "\<And>j. j < length xs \<Longrightarrow> j \<noteq> k \<Longrightarrow> f (xs ! j) = Inr (xs ! j)"
  shows "map_throwing f xs = (case f (xs ! k) of Inl e \<Rightarrow> Inl e | Inr y \<Rightarrow> Inr (xs[k := y]))"
  using assms
proof (induction xs arbitrary: k)
  case Nil
  then show ?case by simp
next
  case (Cons x xs)
  show ?case
  proof (cases k)
    case 0
    have "map_throwing f xs = Inr xs"
    proof (rule map_throwing_id)
      fix y assume "y \<in> set xs"
      then obtain j where "j < length xs" "xs ! j = y" by (auto simp: in_set_conv_nth)
      with Cons.prems(2) [of "Suc j"] 0 show "f y = Inr y" by simp
    qed
    with 0 show ?thesis by (simp split: sum.splits)
  next
    case (Suc m)
    have x: "f x = Inr x" using Cons.prems(2) [of 0] Suc by simp
    have "map_throwing f xs = (case f (xs ! m) of Inl e \<Rightarrow> Inl e | Inr y \<Rightarrow> Inr (xs[m := y]))"
    proof (rule Cons.IH)
      show "m < length xs" using Cons.prems(1) Suc by simp
    next
      fix j assume "j < length xs" "j \<noteq> m"
      with Cons.prems(2) [of "Suc j"] Suc show "f (xs ! j) = Inr (xs ! j)" by simp
    qed
    with x Suc show ?thesis by (simp split: sum.splits)
  qed
qed

lemma distinct_concat_member:
  "distinct (concat xss) \<Longrightarrow> xs \<in> set xss \<Longrightarrow> distinct xs"
  by (induction xss) auto

lemma distinct_concat_nth:
  assumes "distinct (concat xss)" and "j < length xss" and "k < length xss" and "j \<noteq> k"
  shows "set (xss ! j) \<inter> set (xss ! k) = {}"
  using assms
proof (induction xss arbitrary: j k)
  case Nil
  then show ?case by simp
next
  case (Cons xs xss)
  show ?case
  proof (cases j)
    case 0
    with Cons.prems obtain m where m: "k = Suc m" by (cases k) auto
    with Cons.prems have "xss ! m \<in> set xss" by simp
    with Cons.prems(1) 0 m show ?thesis by auto
  next
    case (Suc n)
    show ?thesis
    proof (cases k)
      case 0
      from Cons.prems Suc have "xss ! n \<in> set xss" by simp
      with Cons.prems(1) 0 Suc show ?thesis by auto
    next
      case (Suc m)
      with Cons \<open>j = Suc n\<close> show ?thesis by simp
    qed
  qed
qed


lemma updateNode_at_path:
  assumes "distinct (ids t)" and "subtree_at p t = Some n" and "node_id n = i"
  shows "updateNode t i updater =
           (case updater n of Inl e \<Rightarrow> Inl e | Inr n' \<Rightarrow> Inr (replace_at p n' t))"
  using assms
proof (induction p arbitrary: t)
  case Nil
  then have "t = n" by simp
  with Nil.prems(3) show ?case by (cases n) (simp_all split: sum.splits)
next
  case (Cons k p)
  from Cons.prems(2) obtain s d sz ch where t: "t = Split s d sz ch"
    and k: "k < length ch" and sub: "subtree_at p (ch ! k) = Some n"
    by (cases t) (auto split: if_splits)
  have i_in: "i \<in> set (ids (ch ! k))"
    using subtree_at_ids [OF sub] node_id_in_ids [of n] Cons.prems(3) by auto
  from Cons.prems(1) t have s_notin: "s \<notin> set (concat (map ids ch))"
    and dc: "distinct (concat (map ids ch))" by (simp_all add: ids_Split)
  have "ids (ch ! k) \<in> set (map ids ch)" using k by simp
  with i_in have "i \<in> set (concat (map ids ch))" by auto
  with s_notin have s_ne: "s \<noteq> i" by auto
  have dk: "distinct (ids (ch ! k))"
  proof (rule distinct_concat_member [OF dc])
    show "ids (ch ! k) \<in> set (map ids ch)" using k by simp
  qed
  have others: "updateNode (ch ! j) i updater = Inr (ch ! j)" if "j < length ch" "j \<noteq> k" for j
  proof (rule updateNode_absent)
    have "set (map ids ch ! j) \<inter> set (map ids ch ! k) = {}"
      using dc that k by (intro distinct_concat_nth) simp_all
    with that k i_in show "i \<notin> set (ids (ch ! j))" by auto
  qed
  have ih: "updateNode (ch ! k) i updater =
      (case updater n of Inl e \<Rightarrow> Inl e | Inr n' \<Rightarrow> Inr (replace_at p n' (ch ! k)))"
    using dk sub Cons.prems(3) by (rule Cons.IH)
  have "map_throwing (\<lambda>c. updateNode c i updater) ch =
      (case updateNode (ch ! k) i updater of Inl e \<Rightarrow> Inl e | Inr y \<Rightarrow> Inr (ch[k := y]))"
    using k others by (rule map_throwing_one)
  with ih t k s_ne show ?case by (simp split: sum.splits)
qed

text \<open>
  C2. When no node of the tree has the identifier, \<open>updateNode\<close> returns the tree as
  it is and throws nothing, whatever the updater is (it is never called). When the
  identifiers of the tree are pairwise different and the node at position \<open>p\<close> has the
  identifier, \<open>updateNode\<close> applies the updater to that node and returns the tree with
  the updater's result at position \<open>p\<close>; it throws only what the updater throws.
\<close>

theorem updateNode_replaces_or_noop:
  "(i \<notin> set (ids t) \<longrightarrow> updateNode t i updater = Inr t) \<and>
   (distinct (ids t) \<and> subtree_at p t = Some n \<and> node_id n = i \<longrightarrow>
      updateNode t i updater =
        (case updater n of Inl e \<Rightarrow> Inl e | Inr n' \<Rightarrow> Inr (replace_at p n' t)))"
  using updateNode_absent [of i t updater] updateNode_at_path [of t p n i updater] by blast

lemma magazine_sample:
  "fst (layoutMagazine (sample_draws, 0)) =
     Split ''k3v9x2a'' Horizontal [0.62, 0.38]
       [sample_leaf 1, Split ''z1y5u4t'' Vertical [0.6, 0.4] [sample_leaf 3, sample_leaf 4]]"
  by (simp add: layoutMagazine_def uid_def DEFAULT_LEAF_def Let_def split_def
      sample_leaf_def sample_draws_def)

lemma magazine_sample_ids:
  "ids (fst (layoutMagazine (sample_draws, 0))) =
     [''k3v9x2a'', ''p0q8w7e'', ''z1y5u4t'', ''b6n2m8c'', ''h4j7l0d'']"
  by (simp add: magazine_sample ids_def sample_leaf_def DEFAULT_LEAF_def uid_def
      Let_def split_def sample_draws_def)

theorem updateNode_replaces_or_noop_witness:
  "''nonexistent-id'' \<notin> set (ids (fst (layoutMagazine (sample_draws, 0)))) \<and>
   updateNode (fst (layoutMagazine (sample_draws, 0))) ''nonexistent-id'' (\<lambda>n. Inl TypeError)
     = Inr (fst (layoutMagazine (sample_draws, 0))) \<and>
   distinct (ids (fst (layoutMagazine (sample_draws, 0)))) \<and>
   subtree_at [1, 0] (fst (layoutMagazine (sample_draws, 0))) = Some (sample_leaf 3) \<and>
   node_id (sample_leaf 3) = ''b6n2m8c'' \<and>
   updateNode (fst (layoutMagazine (sample_draws, 0))) ''b6n2m8c'' (\<lambda>n. Inr (sample_leaf 9))
     = (Inr (replace_at [1, 0] (sample_leaf 9) (fst (layoutMagazine (sample_draws, 0))))
          :: anomaly + Node)"
proof -
  let ?T = "fst (layoutMagazine (sample_draws, 0))"
  have absent: "''nonexistent-id'' \<notin> set (ids ?T)" by (simp add: magazine_sample_ids)
  have dist: "distinct (ids ?T)" by (simp add: magazine_sample_ids)
  have sub: "subtree_at [1, 0] ?T = Some (sample_leaf 3)" by (simp add: magazine_sample)
  have nid: "node_id (sample_leaf 3) = ''b6n2m8c''"
    by (simp add: sample_leaf_def DEFAULT_LEAF_def uid_def Let_def split_def sample_draws_def)
  have "updateNode ?T ''nonexistent-id'' (\<lambda>n. Inl TypeError) = Inr ?T"
    using updateNode_replaces_or_noop [of "''nonexistent-id''" ?T "\<lambda>n. Inl TypeError"] absent
    by blast
  moreover have "updateNode ?T ''b6n2m8c'' (\<lambda>n. Inr (sample_leaf 9))
      = (Inr (replace_at [1, 0] (sample_leaf 9) ?T) :: anomaly + Node)"
    using updateNode_replaces_or_noop
      [of "''b6n2m8c''" ?T "\<lambda>n. Inr (sample_leaf 9) :: anomaly + Node" "[1, 0]" "sample_leaf 3"]
      dist sub nid
    by simp
  ultimately show ?thesis using absent dist sub nid by blast
qed

subsection \<open>Layout presets\<close>

lemmas builder_defs = uid_def DEFAULT_LEAF_def Let_def split_def ids_def fresh_call_def

lemma layoutTwoColumns_ok:
  "is_split (fst (layoutTwoColumns g)) \<and> splits_ok (fst (layoutTwoColumns g))
   \<and> fresh_call g (layoutTwoColumns g)"
  by (simp add: layoutTwoColumns_def builder_defs)

lemma layoutComic6Panel_ok:
  "is_split (fst (layoutComic6Panel g)) \<and> splits_ok (fst (layoutComic6Panel g))
   \<and> fresh_call g (layoutComic6Panel g)"
  by (simp add: layoutComic6Panel_def builder_defs)

lemma draws_map: "draws f n k = map f [n ..< n + k]"
  by (induction k arbitrary: n) (simp_all add: upt_rec)

lemma layoutThreeColumns_ok:
  "is_split (fst (layoutThreeColumns g)) \<and> splits_ok (fst (layoutThreeColumns g))
   \<and> fresh_call g (layoutThreeColumns g)"
  by (simp add: layoutThreeColumns_def builder_defs)

lemma layoutTwoByTwo_ok:
  "is_split (fst (layoutTwoByTwo g)) \<and> splits_ok (fst (layoutTwoByTwo g))
   \<and> fresh_call g (layoutTwoByTwo g)"
  by (simp add: layoutTwoByTwo_def builder_defs)

lemma layoutMagazine_ok:
  "is_split (fst (layoutMagazine g)) \<and> splits_ok (fst (layoutMagazine g))
   \<and> fresh_call g (layoutMagazine g)"
  by (simp add: layoutMagazine_def builder_defs)

lemma layoutHeaderColumns_ok:
  "is_split (fst (layoutHeaderColumns g)) \<and> splits_ok (fst (layoutHeaderColumns g))
   \<and> fresh_call g (layoutHeaderColumns g)"
  by (simp add: layoutHeaderColumns_def builder_defs)

lemma layoutFullBleed_ok:
  "is_split (fst (layoutFullBleed g)) \<and> splits_ok (fst (layoutFullBleed g))
   \<and> fresh_call g (layoutFullBleed g)"
  by (simp add: layoutFullBleed_def builder_defs)

lemma layoutComicSplash_ok:
  "is_split (fst (layoutComicSplash g)) \<and> splits_ok (fst (layoutComicSplash g))
   \<and> fresh_call g (layoutComicSplash g)"
  by (simp add: layoutComicSplash_def builder_defs)

lemma layoutPyramid_ok:
  "is_split (fst (layoutPyramid g)) \<and> splits_ok (fst (layoutPyramid g))
   \<and> fresh_call g (layoutPyramid g)"
  by (simp add: layoutPyramid_def builder_defs)

lemmas presets_ok = layoutTwoColumns_ok layoutThreeColumns_ok layoutTwoByTwo_ok
  layoutMagazine_ok layoutHeaderColumns_ok layoutFullBleed_ok layoutComic6Panel_ok
  layoutComicSplash_ok layoutPyramid_ok

lemma fresh_calls_distinct:
  assumes "fresh_call g r1" and "fresh_call (snd r1) r2"
    and "inj_on (fst g) {snd g ..< snd (snd r2)}"
  shows "distinct (ids (fst r1) @ ids (fst r2))"
proof -
  let ?f = "fst g" and ?n = "snd g"
  let ?k1 = "length (ids (fst r1))" and ?k2 = "length (ids (fst r2))"
  from assms(1) have a: "fst (snd r1) = ?f" "snd (snd r1) = ?n + ?k1"
    "ids (fst r1) = map ?f [?n ..< ?n + ?k1]"
    by (simp_all add: fresh_call_def draws_map)
  from assms(2) a have b: "snd (snd r2) = ?n + ?k1 + ?k2"
    "ids (fst r2) = map ?f [?n + ?k1 ..< ?n + ?k1 + ?k2]"
    by (simp_all add: fresh_call_def draws_map)
  have "ids (fst r1) @ ids (fst r2) = map ?f [?n ..< ?n + ?k1 + ?k2]"
    by (subst a(3), subst b(2)) (simp add: upt_add_eq_append [of ?n "?n + ?k1" ?k2] del: upt_add_eq_append)
  moreover have "distinct (map ?f [?n ..< ?n + ?k1 + ?k2])"
    using assms(3) b(1) by (simp add: distinct_map)
  ultimately show ?thesis by simp
qed

lemma builder_fresh:
  assumes "\<And>g. is_split (fst (build g)) \<and> splits_ok (fst (build g)) \<and> fresh_call g (build g)"
  shows "\<forall>g. is_split (fst (build g)) \<and> splits_ok (fst (build g)) \<and> fresh_call g (build g) \<and>
     (inj_on (fst g) {snd g ..< snd (snd (build (snd (build g))))} \<longrightarrow>
        distinct (ids (fst (build g)) @ ids (fst (build (snd (build g))))))"
proof (intro allI conjI impI)
  fix g
  show "is_split (fst (build g))" "splits_ok (fst (build g))" "fresh_call g (build g)"
    using assms [of g] by simp_all
  assume "inj_on (fst g) {snd g ..< snd (snd (build (snd (build g))))}"
  with assms [of g] assms [of "snd (build g)"]
  show "distinct (ids (fst (build g)) @ ids (fst (build (snd (build g)))))"
    by (intro fresh_calls_distinct) simp_all
qed

text \<open>
  C7 (amended). Every builder of \<open>PRESETS\<close>, from every state of the generator, returns
  a tree whose root is a split and in which every split has at least one child, as many
  sizes as children and sizes summing to 1. The builder makes one \<open>uid()\<close> call per
  node and the identifiers of the tree are the results of these calls. So when the
  results of the \<open>uid()\<close> calls made by two successive calls of the builder are
  pairwise different, no identifier occurs twice in the two trees together.
\<close>

theorem presets_build_fresh_trees:
  "\<forall>(name, build) \<in> set PRESETS. \<forall>g.
     is_split (fst (build g)) \<and> splits_ok (fst (build g)) \<and> fresh_call g (build g) \<and>
     (inj_on (fst g) {snd g ..< snd (snd (build (snd (build g))))} \<longrightarrow>
        distinct (ids (fst (build g)) @ ids (fst (build (snd (build g))))))"
  unfolding PRESETS_def
  using builder_fresh [of layoutTwoColumns, OF layoutTwoColumns_ok]
    builder_fresh [of layoutThreeColumns, OF layoutThreeColumns_ok]
    builder_fresh [of layoutTwoByTwo, OF layoutTwoByTwo_ok]
    builder_fresh [of layoutMagazine, OF layoutMagazine_ok]
    builder_fresh [of layoutHeaderColumns, OF layoutHeaderColumns_ok]
    builder_fresh [of layoutFullBleed, OF layoutFullBleed_ok]
    builder_fresh [of layoutComic6Panel, OF layoutComic6Panel_ok]
    builder_fresh [of layoutComicSplash, OF layoutComicSplash_ok]
    builder_fresh [of layoutPyramid, OF layoutPyramid_ok]
  by simp

theorem presets_build_fresh_trees_witness:
  "(''Full'', layoutFullBleed) \<in> set PRESETS \<and>
   inj_on sample_draws {0 ..< 4} \<and>
   is_split (fst (layoutFullBleed (sample_draws, 0))) \<and>
   splits_ok (fst (layoutFullBleed (sample_draws, 0))) \<and>
   distinct (ids (fst (layoutFullBleed (sample_draws, 0)))
             @ ids (fst (layoutFullBleed (snd (layoutFullBleed (sample_draws, 0))))))"
proof -
  have mem: "(''Full'', layoutFullBleed) \<in> set PRESETS" by (simp add: PRESETS_def)
  have inj: "inj_on sample_draws {0 ..< 4}"
    by (auto simp: inj_on_def sample_draws_def nth_Cons')
  have after: "snd (snd (layoutFullBleed (snd (layoutFullBleed (sample_draws, 0))))) = 4"
    by (simp add: layoutFullBleed_def uid_def DEFAULT_LEAF_def Let_def split_def)
  from presets_build_fresh_trees mem
  have "\<forall>g. is_split (fst (layoutFullBleed g)) \<and> splits_ok (fst (layoutFullBleed g)) \<and>
      fresh_call g (layoutFullBleed g) \<and>
      (inj_on (fst g) {snd g ..< snd (snd (layoutFullBleed (snd (layoutFullBleed g))))} \<longrightarrow>
         distinct (ids (fst (layoutFullBleed g))
                   @ ids (fst (layoutFullBleed (snd (layoutFullBleed g))))))"
    by fastforce
  then have "is_split (fst (layoutFullBleed (sample_draws, 0))) \<and>
      splits_ok (fst (layoutFullBleed (sample_draws, 0))) \<and>
      (inj_on sample_draws {0 ..< snd (snd (layoutFullBleed (snd (layoutFullBleed (sample_draws, 0)))))} \<longrightarrow>
         distinct (ids (fst (layoutFullBleed (sample_draws, 0)))
                   @ ids (fst (layoutFullBleed (snd (layoutFullBleed (sample_draws, 0)))))))"
    by (metis fst_conv snd_conv)
  with mem inj show ?thesis unfolding after by blast
qed

text \<open>
  The claim as written (two successive calls never share an identifier) fails when two
  \<open>uid()\<close> calls return the same string: with \<open>colliding_draws\<close> the two trees built
  by the \<open>Full\<close> preset have the same root identifier.
\<close>

theorem presets_ids_can_collide:
  "(''Full'', layoutFullBleed) \<in> set PRESETS \<and>
   set (ids (fst (layoutFullBleed (colliding_draws, 0))))
     \<inter> set (ids (fst (layoutFullBleed (snd (layoutFullBleed (colliding_draws, 0)))))) \<noteq> {}"
  by (simp add: PRESETS_def layoutFullBleed_def builder_defs colliding_draws_def sample_draws_def)

subsection \<open>Leaf inspector\<close>

text \<open>
  C8. The updater that switches the content type of a leaf leaves \<open>textProps\<close>,
  \<open>imageProps\<close> and the identifier as they are and sets \<open>contentType\<close>; switching
  back gives the leaf one started from, so the settings of the inactive type survive.
\<close>

theorem contentType_switch_keeps_props:
  "textProps (contentTypeUpdater v n) = textProps n \<and>
   imageProps (contentTypeUpdater v n) = imageProps n \<and>
   leaf_id (contentTypeUpdater v n) = leaf_id n \<and>
   contentType (contentTypeUpdater v n) = v \<and>
   contentTypeUpdater (contentType n) (contentTypeUpdater v n) = n"
  by (simp add: contentTypeUpdater_def)

subsection \<open>Split inspector\<close>








end
